theory Spec2Isabelle
  imports Complex_Main
begin

section \<open>The homework cloner (cloneHw.ts): data model\<close>

text \<open>
  The program is a single TypeScript file. It reads a repository name from the command
  line, fetches the open pull requests of that repository, keeps the pull requests of
  the tracked students, clones each of them with a \<^verbatim>\<open>git clone\<close> subprocess and prints the
  students with no submission. Strings are \<^typ>\<open>string\<close>; a field the source reads with
  \<^verbatim>\<open>?.\<close> is an \<^typ>\<open>'a option\<close> (\<^term>\<open>None\<close> stands for both \<^verbatim>\<open>undefined\<close> and \<^verbatim>\<open>null\<close>); the
  other fields are as \<^verbatim>\<open>interfaces.ts\<close> declares them. Only the fields the program reads
  are kept.
\<close>

record Student =
  name :: string
  username :: string

record GithubUser =
  login :: string

record GithubHead =
  ref :: string

record GithubRepo =
  full_name :: string

record GithubBase =
  repo :: GithubRepo

record GithubPR =
  user :: "GithubUser option"
  head :: "GithubHead option"
  base :: GithubBase

text \<open>
  The values imported from \<^verbatim>\<open>config.json\<close>. The configured \<^verbatim>\<open>username\<close> is the field
  \<open>cfgUsername\<close>, since \<open>username\<close> is a field of \<^typ>\<open>Student\<close> already.
\<close>

record config =
  hostName :: string
  cfgUsername :: string
  githubToken :: string
  orgName :: string
  students :: "Student list"

text \<open>Exceptions of the runtime and of the libraries the program calls.\<close>

datatype jsError = TypeError | SyntaxError | SystemError string

text \<open>
  What the program does to the outside world, in order: lines printed with
  \<^verbatim>\<open>console.log\<close> (a string, or a caught error object), \<^verbatim>\<open>process.exit()\<close>, the HTTPS
  request (host, path, headers), \<^verbatim>\<open>mkdirSync\<close>, a subprocess spawned through the shell,
  and the end of the process on an exception nobody catches.
\<close>

datatype effect =
    Log string
  | LogError jsError
  | Exit
  | HttpGet string string "(string \<times> string) list"
  | Mkdir string
  | Spawn string
  | Crash jsError

section \<open>JavaScript objects used as dictionaries\<close>

text \<open>
  \<^verbatim>\<open>studentLookup\<close> is an object literal \<^verbatim>\<open>{}\<close>, so its prototype is \<^verbatim>\<open>Object.prototype\<close>.
  Its own properties are a map from keys to strings. The \<^verbatim>\<open>in\<close> operator and a property
  read also see the members every object inherits; these are their names.
\<close>

definition objectPrototypeKeys :: "string list" where
  "objectPrototypeKeys =
     [''constructor'', ''__defineGetter__'', ''__defineSetter__'', ''hasOwnProperty'',
      ''__lookupGetter__'', ''__lookupSetter__'', ''isPrototypeOf'',
      ''propertyIsEnumerable'', ''toString'', ''valueOf'', ''__proto__'',
      ''toLocaleString'']"

definition inheritedKey :: "string \<Rightarrow> bool" where
  "inheritedKey k = (k \<in> set objectPrototypeKeys)"

text \<open>
  \<^verbatim>\<open>obj[k] = v\<close> with a string \<open>v\<close>: it creates or overwrites the own property \<open>k\<close>,
  except for \<^verbatim>\<open>__proto__\<close>, whose inherited setter ignores a value that is not an object.
\<close>

definition assignProp :: "(string \<rightharpoonup> string) \<Rightarrow> string \<Rightarrow> string \<Rightarrow> (string \<rightharpoonup> string)" where
  "assignProp obj k v = (if k = ''__proto__'' then obj else obj(k \<mapsto> v))"

text \<open>\<^verbatim>\<open>k in obj\<close>: an own property or an inherited one.\<close>

definition inOperator :: "string \<Rightarrow> (string \<rightharpoonup> string) \<Rightarrow> bool" where
  "inOperator k obj = (obj k \<noteq> None \<or> inheritedKey k)"

text \<open>
  The result of the read \<^verbatim>\<open>obj[k]\<close>: the own string, an inherited member (a built-in
  function, or \<^verbatim>\<open>Object.prototype\<close> itself for \<^verbatim>\<open>__proto__\<close>), or \<^verbatim>\<open>undefined\<close>.
\<close>

datatype jsValue = Str string | Inherited string | Undefined

definition getProp :: "(string \<rightharpoonup> string) \<Rightarrow> string \<Rightarrow> jsValue" where
  "getProp obj k =
     (case obj k of
        Some v \<Rightarrow> Str v
      | None \<Rightarrow> if inheritedKey k then Inherited k else Undefined)"

text \<open>The conversion to a string that a template literal \<^verbatim>\<open>`${v}`\<close> applies.\<close>

fun toStr :: "jsValue \<Rightarrow> string" where
  "toStr (Str s) = s"
| "toStr Undefined = ''undefined''"
| "toStr (Inherited k) =
     (if k = ''__proto__'' then ''[object Object]''
      else ''function '' @ (if k = ''constructor'' then ''Object'' else k)
             @ ''() { [native code] }'')"

text \<open>
  The loop \<^verbatim>\<open>for (const student of students) studentLookup[student.username] = student.name\<close>,
  which \<^verbatim>\<open>filterStudentsPullRequests\<close> and \<^verbatim>\<open>cloneRepositories\<close> both run on an empty
  object.
\<close>

fun fillLookup :: "(string \<rightharpoonup> string) \<Rightarrow> Student list \<Rightarrow> (string \<rightharpoonup> string)" where
  "fillLookup obj [] = obj"
| "fillLookup obj (student # rest) =
     fillLookup (assignProp obj (username student) (name student)) rest"

definition studentLookup :: "Student list \<Rightarrow> (string \<rightharpoonup> string)" where
  "studentLookup sts = fillLookup Map.empty sts"

section \<open>Argument validation and flags\<close>

text \<open>The class \<^verbatim>\<open>\w\<close> of a regular expression without the unicode flag.\<close>

definition wordChar :: "char \<Rightarrow> bool" where
  "wordChar c =
     (c \<in> set ''abcdefghijklmnopqrstuvwxyzABCDEFGHIJKLMNOPQRSTUVWXYZ0123456789_'')"

text \<open>\<^verbatim>\<open>/^\w/.test(s)\<close>\<close>

fun startsWithWord :: "string \<Rightarrow> bool" where
  "startsWithWord [] = False"
| "startsWithWord (c # cs) = wordChar c"

text \<open>
  \<^verbatim>\<open>validateRepoName\<close> returns an object whose \<^verbatim>\<open>error\<close> field is set or absent: the result
  is that field. The argument is \<^verbatim>\<open>process.argv[2]\<close>, \<^term>\<open>None\<close> when the argument vector is
  too short; \<^verbatim>\<open>!repoName\<close> holds for \<^verbatim>\<open>undefined\<close> and for the empty string.
\<close>

definition validateRepoName :: "string option \<Rightarrow> string option" where
  "validateRepoName repoName =
     (case repoName of
        None \<Rightarrow> Some ''No repository name supplied in arguments! Exiting...''
      | Some s \<Rightarrow>
          if s = [] then Some ''No repository name supplied in arguments! Exiting...''
          else if \<not> startsWithWord s then Some ''Invalid repository name! Exiting...''
          else None)"

text \<open>\<^verbatim>\<open>argv.match(/^--[\w-]+/)\<close> is not null.\<close>

fun matchesFlag :: "string \<Rightarrow> bool" where
  "matchesFlag (a # b # c # cs) = (a = CHR ''-'' \<and> b = CHR ''-'' \<and> (wordChar c \<or> c = CHR ''-''))"
| "matchesFlag cs = False"

text \<open>\<^verbatim>\<open>CliArgs.RepoName = 2\<close>\<close>

definition RepoName :: nat where
  "RepoName = 2"

definition parseFlags :: "string list \<Rightarrow> string list" where
  "parseFlags args = (let flags = drop (RepoName + 1) args in filter matchesFlag flags)"

text \<open>\<^verbatim>\<open>process.argv[i]\<close>\<close>

definition argvAt :: "string list \<Rightarrow> nat \<Rightarrow> string option" where
  "argvAt argv i = (if i < length argv then Some (argv ! i) else None)"

text \<open>The two lines of \<^verbatim>\<open>main\<close> that compute \<^verbatim>\<open>flags\<close> from the argument vector.\<close>

definition mainFlags :: "string list \<Rightarrow> string list" where
  "mainFlags argv = (let restOfTheArgs = drop (RepoName + 1) argv in parseFlags restOfTheArgs)"

section \<open>The pull-request fetcher\<close>

text \<open>
  A JavaScript number, as far as \<^verbatim>\<open>notifyIfTokenExpiresSoon\<close> needs it: \<^verbatim>\<open>NaN\<close> or a finite
  value. Finite values are exact reals here (the rounding of doubles is left out); every
  operation returns \<^verbatim>\<open>NaN\<close> on a \<^verbatim>\<open>NaN\<close> operand and every comparison with \<^verbatim>\<open>NaN\<close> is false.
  The divisors the program uses are non-zero constants.
\<close>

datatype jsNumber = NaN | Num real

fun jsSub :: "jsNumber \<Rightarrow> jsNumber \<Rightarrow> jsNumber" where
  "jsSub (Num a) (Num b) = Num (a - b)"
| "jsSub a b = NaN"

fun jsDiv :: "jsNumber \<Rightarrow> jsNumber \<Rightarrow> jsNumber" where
  "jsDiv (Num a) (Num b) = Num (a / b)"
| "jsDiv a b = NaN"

fun jsFloor :: "jsNumber \<Rightarrow> jsNumber" where
  "jsFloor (Num a) = Num (of_int \<lfloor>a\<rfloor>)"
| "jsFloor NaN = NaN"

fun jsLess :: "jsNumber \<Rightarrow> jsNumber \<Rightarrow> bool" where
  "jsLess (Num a) (Num b) = (a < b)"
| "jsLess a b = False"

text \<open>The events of the response stream that \<^verbatim>\<open>xhr\<close> listens to.\<close>

datatype event = Data string | End | Error string

text \<open>
  What \<^verbatim>\<open>JSON.parse\<close> can return: an array (its elements read as pull requests), an
  object (its own keys), or a primitive (a number, a string, a boolean, \<^verbatim>\<open>null\<close>).
\<close>

datatype parsed = PList "GithubPR list" | PObject "string list" | PPrimitive

text \<open>
  How the promise of \<^verbatim>\<open>xhr\<close> ends: resolved, rejected, never settled (the stream ends
  with neither \<^verbatim>\<open>end\<close> nor \<^verbatim>\<open>error\<close>), or an exception thrown inside the \<^verbatim>\<open>end\<close> handler,
  which nothing catches.
\<close>

datatype xhrOutcome = Resolved parsed | Rejected string | Uncaught jsError | NeverSettles

text \<open>
  Everything outside the program that a run depends on: the date parser and the clock,
  \<^verbatim>\<open>JSON.parse\<close> (\<^term>\<open>None\<close> when it throws), the response (status code as printed, the
  \<^verbatim>\<open>github-authentication-token-expiration\<close> header, the stream events), the paths that
  exist when the run starts, the exception \<^verbatim>\<open>mkdirSync\<close> or \<^verbatim>\<open>spawn\<close> throws for an
  argument, if any, and the paths that come to exist, through the clone subprocesses
  running in the background or otherwise, just before the \<open>i\<close>-th submission is handled.
\<close>

record world =
  dateParse :: "string \<Rightarrow> int option"
  now :: int
  jsonParse :: "string \<Rightarrow> parsed option"
  statusCode :: string
  expirationHeader :: "string option"
  events :: "event list"
  fs :: "string set"
  mkdirThrows :: "string \<Rightarrow> jsError option"
  spawnThrows :: "string \<Rightarrow> jsError option"
  appears :: "nat \<Rightarrow> string set"

text \<open>\<^verbatim>\<open>new Date(tokenExpirationDate).getTime()\<close>; an absent header is \<^verbatim>\<open>undefined\<close>.\<close>

definition getTime :: "world \<Rightarrow> string option \<Rightarrow> jsNumber" where
  "getTime W tokenExpirationDate =
     (case tokenExpirationDate of
        None \<Rightarrow> NaN
      | Some s \<Rightarrow> (case dateParse W s of None \<Rightarrow> NaN | Some t \<Rightarrow> Num (of_int t)))"

definition daysUntilExpiry :: "world \<Rightarrow> string option \<Rightarrow> jsNumber" where
  "daysUntilExpiry W tokenExpirationDate =
     (let milliseconds = jsSub (getTime W tokenExpirationDate) (Num (of_int (now W)))
      in jsFloor (jsDiv (jsDiv (jsDiv (jsDiv milliseconds (Num 1000)) (Num 60)) (Num 60)) (Num 24)))"

definition notifyIfTokenExpiresSoon :: "world \<Rightarrow> string option \<Rightarrow> effect list" where
  "notifyIfTokenExpiresSoon W tokenExpirationDate =
     (let days = daysUntilExpiry W tokenExpirationDate
      in if jsLess days (Num 7)
         then [Log ''Heads up, your Personal Access Token is expiring in < 1 week'']
         else [])"

text \<open>
  \<^verbatim>\<open>'message' in response\<close>. On a primitive the operator throws. An array has its indices
  and \<^verbatim>\<open>length\<close> as own keys and inherits from \<^verbatim>\<open>Array.prototype\<close>, where no member is
  called \<^verbatim>\<open>message\<close>.
\<close>

fun messageIn :: "parsed \<Rightarrow> jsError + bool" where
  "messageIn (PObject keys) = Inr (''message'' \<in> set keys \<or> inheritedKey ''message'')"
| "messageIn (PList prs) = Inr False"
| "messageIn PPrimitive = Inl TypeError"

text \<open>The handler of \<^verbatim>\<open>end\<close>, on the body collected so far.\<close>

definition onEnd :: "world \<Rightarrow> string \<Rightarrow> string \<Rightarrow> string \<Rightarrow> xhrOutcome" where
  "onEnd W org repoName body =
     (case jsonParse W body of
        None \<Rightarrow> Uncaught SyntaxError
      | Some response \<Rightarrow>
          (case messageIn response of
             Inl err \<Rightarrow> Uncaught err
           | Inr True \<Rightarrow> Rejected (''Warning: No repository found for: '' @ org @ ''/'' @ repoName)
           | Inr False \<Rightarrow> Resolved response))"

text \<open>
  The stream events in order, up to the first that settles the promise: \<^verbatim>\<open>data\<close> appends
  to the body, \<^verbatim>\<open>end\<close> parses it, \<^verbatim>\<open>error\<close> rejects.
\<close>

fun runEvents :: "world \<Rightarrow> string \<Rightarrow> string \<Rightarrow> string \<Rightarrow> event list \<Rightarrow> xhrOutcome" where
  "runEvents W org repoName body [] = NeverSettles"
| "runEvents W org repoName body (Data d # es) = runEvents W org repoName (body @ d) es"
| "runEvents W org repoName body (End # es) = onEnd W org repoName body"
| "runEvents W org repoName body (Error err # es) =
     Rejected (''Failed XHR, status code: '' @ statusCode W @ '' \<newline> '' @ err)"

text \<open>
  \<^verbatim>\<open>xhr\<close>, from the moment the response arrives: the request it issued, the expiry
  notice, and the outcome of the promise. \<open>userAgent\<close> is the configured \<^verbatim>\<open>username\<close>,
  which the source reads from the module scope.
\<close>

definition xhr ::
  "world \<Rightarrow> string \<Rightarrow> string \<Rightarrow> string \<Rightarrow> string \<Rightarrow> string \<Rightarrow> effect list \<times> xhrOutcome" where
  "xhr W userAgent org repoName host token =
     (HttpGet (''api.'' @ host) (''/repos/'' @ org @ ''/'' @ repoName @ ''/pulls'')
        [(''User-Agent'', userAgent), (''Authorization'', ''token '' @ token)]
        # notifyIfTokenExpiresSoon W (expirationHeader W),
      runEvents W org repoName [] (events W))"

section \<open>The submission filter\<close>

text \<open>\<^verbatim>\<open>pullRequest.user?.login ?? "no user found"\<close>\<close>

definition resolvedUsername :: "GithubPR \<Rightarrow> string" where
  "resolvedUsername pullRequest =
     (case user pullRequest of Some u \<Rightarrow> login u | None \<Rightarrow> ''no user found'')"

text \<open>\<^verbatim>\<open>pullRequest.head?.ref\<close>\<close>

definition headRef :: "GithubPR \<Rightarrow> string option" where
  "headRef pullRequest = map_option ref (head pullRequest)"

text \<open>
  The loop over the pull requests; \<open>submissions\<close> is the array the source pushes to.
  (The source also computes \<^verbatim>\<open>studentUsernames\<close> and never reads it.)
\<close>

fun filterLoop :: "(string \<rightharpoonup> string) \<Rightarrow> GithubPR list \<Rightarrow> GithubPR list \<Rightarrow> GithubPR list" where
  "filterLoop lookup submissions [] = submissions"
| "filterLoop lookup submissions (pullRequest # rest) =
     (if headRef pullRequest \<noteq> Some ''main'' \<and> headRef pullRequest \<noteq> Some ''master''
      then filterLoop lookup submissions rest
      else if inOperator (resolvedUsername pullRequest) lookup
      then filterLoop lookup (submissions @ [pullRequest]) rest
      else filterLoop lookup submissions rest)"

definition filterStudentsPullRequests :: "GithubPR list \<Rightarrow> Student list \<Rightarrow> GithubPR list" where
  "filterStudentsPullRequests pullRequests sts = filterLoop (studentLookup sts) [] pullRequests"

section \<open>The repository materializer\<close>

definition cliCommand :: "string \<Rightarrow> jsValue \<Rightarrow> jsValue \<Rightarrow> string \<Rightarrow> string" where
  "cliCommand repoName repoPath studentName host =
     ''git clone git@'' @ host @ '':'' @ toStr repoPath @ ''.git '' @ repoName @ ''/''
       @ toStr studentName"

text \<open>
  \<^verbatim>\<open>spawnProcess\<close>: the subprocess runs in the background; what its output handlers print
  later is not part of the synchronous run.
\<close>

definition spawnProcess ::
  "world \<Rightarrow> string \<Rightarrow> jsValue \<Rightarrow> jsValue \<Rightarrow> string \<Rightarrow> jsError + effect list" where
  "spawnProcess W repoName repoPath studentName host =
     (let cmd = cliCommand repoName repoPath studentName host
      in case spawnThrows W cmd of Some err \<Rightarrow> Inl err | None \<Rightarrow> Inr [Spawn cmd])"

text \<open>The destination \<^verbatim>\<open>`${repoName}/${studentName}`\<close>\<close>

definition destination :: "string \<Rightarrow> jsValue \<Rightarrow> string" where
  "destination repoName studentName = repoName @ ''/'' @ toStr studentName"

text \<open>
  The callback of \<^verbatim>\<open>submissions.forEach\<close> on one submission, \<open>present\<close> being the paths
  that exist at that moment. The two reads before the \<^verbatim>\<open>try\<close> are not guarded:
  \<^verbatim>\<open>submission.user.login\<close> throws when the user is absent, and the exception leaves the
  callback (\<^term>\<open>Inl\<close>). An exception inside the \<^verbatim>\<open>try\<close> is caught and printed.
\<close>

definition cloneSubmission ::
  "world \<Rightarrow> string \<Rightarrow> string \<Rightarrow> (string \<rightharpoonup> string) \<Rightarrow> string set \<Rightarrow> GithubPR
     \<Rightarrow> jsError + effect list" where
  "cloneSubmission W repoName host lookup present submission =
     (let repoPath = Str (full_name (repo (base submission)))
      in case user submission of
           None \<Rightarrow> Inl TypeError
         | Some u \<Rightarrow>
             (let studentName = getProp lookup (login u)
              in if destination repoName studentName \<notin> present
                 then (case spawnProcess W repoName repoPath studentName host of
                         Inl err \<Rightarrow> Inr [LogError err]
                       | Inr effs \<Rightarrow> Inr effs)
                 else Inr [Log (''Folder already exists for '' @ toStr studentName
                                  @ ''. Skipping...'')]))"

text \<open>
  \<^verbatim>\<open>forEach\<close> from the \<open>i\<close>-th submission on: the effects, and the exception that ended the
  loop, if one left the callback.
\<close>

fun forEachSubmission ::
  "world \<Rightarrow> string \<Rightarrow> string \<Rightarrow> (string \<rightharpoonup> string) \<Rightarrow> nat \<Rightarrow> string set \<Rightarrow> GithubPR list
     \<Rightarrow> effect list \<times> jsError option" where
  "forEachSubmission W repoName host lookup i present [] = ([], None)"
| "forEachSubmission W repoName host lookup i present (submission # rest) =
     (case cloneSubmission W repoName host lookup (present \<union> appears W i) submission of
        Inl err \<Rightarrow> ([], Some err)
      | Inr effs \<Rightarrow>
          (case forEachSubmission W repoName host lookup (Suc i) (present \<union> appears W i) rest of
             (later, thrown) \<Rightarrow> (effs @ later, thrown)))"

definition cloneRepositories ::
  "world \<Rightarrow> string \<Rightarrow> string \<Rightarrow> GithubPR list \<Rightarrow> Student list \<Rightarrow> effect list \<times> jsError option" where
  "cloneRepositories W repoName host submissions sts =
     (let lookup = studentLookup sts
      in if repoName \<notin> fs W
         then (case mkdirThrows W repoName of
                 Some err \<Rightarrow> ([], Some err)
               | None \<Rightarrow>
                   (case forEachSubmission W repoName host lookup 0 (insert repoName (fs W))
                           submissions of
                      (effs, thrown) \<Rightarrow> (Mkdir repoName # effs, thrown)))
         else forEachSubmission W repoName host lookup 0 (fs W) submissions)"

section \<open>The gap reporter\<close>

text \<open>\<^verbatim>\<open>submissions.map(submission => submission.user.login)\<close>, which throws on an absent user.\<close>

fun githubUsernames :: "GithubPR list \<Rightarrow> jsError + string list" where
  "githubUsernames [] = Inr []"
| "githubUsernames (submission # rest) =
     (case user submission of
        None \<Rightarrow> Inl TypeError
      | Some u \<Rightarrow>
          (case githubUsernames rest of
             Inl err \<Rightarrow> Inl err
           | Inr logins \<Rightarrow> Inr (login u # logins)))"

text \<open>\<^verbatim>\<open>difference.forEach(student => (names += `${student.name} `))\<close>\<close>

fun appendNames :: "string \<Rightarrow> Student list \<Rightarrow> string" where
  "appendNames names [] = names"
| "appendNames names (student # rest) = appendNames (names @ name student @ '' '') rest"

definition logMissingSubmissions :: "GithubPR list \<Rightarrow> Student list \<Rightarrow> jsError + effect list" where
  "logMissingSubmissions submissions sts =
     (if length submissions \<noteq> length sts
      then (case githubUsernames submissions of
              Inl err \<Rightarrow> Inl err
            | Inr logins \<Rightarrow>
                (let difference = filter (\<lambda>student. username student \<notin> set logins) sts
                 in Inr [Log (''Missing submissions from: '' @ appendNames [] difference)]))
      else Inr [])"

section \<open>The program\<close>

text \<open>
  The body of the \<^verbatim>\<open>try\<close> in \<^verbatim>\<open>main\<close> once the promise of \<^verbatim>\<open>xhr\<close> is resolved. Iterating over
  a resolved value that is not an array throws; every exception is printed by the
  \<^verbatim>\<open>catch\<close>, which then exits.
\<close>

definition afterFetch :: "config \<Rightarrow> world \<Rightarrow> string \<Rightarrow> parsed \<Rightarrow> effect list" where
  "afterFetch cfg W repoName response =
     (case response of
        PList pullRequests \<Rightarrow>
          (let studentSubmissions = filterStudentsPullRequests pullRequests (students cfg)
           in case cloneRepositories W repoName (hostName cfg) studentSubmissions (students cfg) of
                (effs, Some err) \<Rightarrow> effs @ [LogError err, Exit]
              | (effs, None) \<Rightarrow>
                  (case logMissingSubmissions studentSubmissions (students cfg) of
                     Inl err \<Rightarrow> effs @ [LogError err, Exit]
                   | Inr printed \<Rightarrow> effs @ printed))
      | PObject keys \<Rightarrow> [LogError TypeError, Exit]
      | PPrimitive \<Rightarrow> [LogError TypeError, Exit])"

text \<open>
  \<^verbatim>\<open>main\<close> on an argument vector. The flags are computed and never used. The last case
  cannot occur: a missing repository name does not pass the validation.
\<close>

definition main :: "config \<Rightarrow> world \<Rightarrow> string list \<Rightarrow> effect list" where
  "main cfg W argv =
     (let repoName = argvAt argv RepoName
      in case (validateRepoName repoName, repoName) of
           (Some err, _) \<Rightarrow> [Log err, Exit]
         | (None, Some rn) \<Rightarrow>
             (let flags = mainFlags argv
              in case xhr W (cfgUsername cfg) (orgName cfg) rn (hostName cfg) (githubToken cfg) of
                   (effs, Resolved response) \<Rightarrow> effs @ afterFetch cfg W rn response
                 | (effs, Rejected err) \<Rightarrow> effs @ [Log err, Exit]
                 | (effs, Uncaught err) \<Rightarrow> effs @ [Crash err]
                 | (effs, NeverSettles) \<Rightarrow> effs)
         | (None, None) \<Rightarrow> [])"

section \<open>Example inputs\<close>

text \<open>
  The roster and the pull requests of the scenarios, used to run the definitions on
  concrete inputs. Every pull request targets the repository \<^verbatim>\<open>org/hw1\<close>.
\<close>

definition alice :: Student where
  "alice = \<lparr>name = ''Alice'', username = ''a1''\<rparr>"

definition bob :: Student where
  "bob = \<lparr>name = ''Bob'', username = ''b1''\<rparr>"


definition prAlice :: GithubPR where
  "prAlice = \<lparr>user = Some \<lparr>login = ''a1''\<rparr>, head = Some \<lparr>ref = ''main''\<rparr>,
               base = \<lparr>repo = \<lparr>full_name = ''org/hw1''\<rparr>\<rparr>\<rparr>"

text \<open>A second pull request of the same author, from the branch \<^verbatim>\<open>master\<close>.\<close>

definition prAliceMaster :: GithubPR where
  "prAliceMaster = \<lparr>user = Some \<lparr>login = ''a1''\<rparr>, head = Some \<lparr>ref = ''master''\<rparr>,
                     base = \<lparr>repo = \<lparr>full_name = ''org/hw1''\<rparr>\<rparr>\<rparr>"

definition prBob :: GithubPR where
  "prBob = \<lparr>user = Some \<lparr>login = ''b1''\<rparr>, head = Some \<lparr>ref = ''main''\<rparr>,
             base = \<lparr>repo = \<lparr>full_name = ''org/hw1''\<rparr>\<rparr>\<rparr>"


text \<open>A pull request of an account that is not on the roster.\<close>

definition prConstructor :: GithubPR where
  "prConstructor = \<lparr>user = Some \<lparr>login = ''constructor''\<rparr>, head = Some \<lparr>ref = ''main''\<rparr>,
                     base = \<lparr>repo = \<lparr>full_name = ''org/hw1''\<rparr>\<rparr>\<rparr>"


definition exampleConfig :: config where
  "exampleConfig = \<lparr>hostName = ''github.com'', cfgUsername = ''instructor'',
                     githubToken = ''token123'', orgName = ''org'', students = [alice, bob]\<rparr>"

text \<open>
  A parser that knows two bodies: the body \<open>PULLS\<close> stands for the list with Alice's pull
  request and the body \<open>NOT FOUND\<close> for the error object of the API.
\<close>

definition exampleParse :: "string \<Rightarrow> parsed option" where
  "exampleParse body =
     (if body = ''PULLS'' then Some (PList [prAlice])
      else if body = ''NOT FOUND'' then Some (PObject [''message'', ''documentation_url''])
      else None)"

text \<open>
  A run in which the response has no expiry header and delivers the body \<open>PULLS\<close> in two
  chunks, nothing exists on disk, no library call throws, and no path appears while the
  submissions are handled.
\<close>

definition exampleWorld :: world where
  "exampleWorld = \<lparr>dateParse = (\<lambda>s. None), now = 1600000000000, jsonParse = exampleParse,
                    statusCode = ''200'', expirationHeader = None,
                    events = [Data ''PUL'', Data ''LS'', End], fs = {},
                    mkdirThrows = (\<lambda>p. None), spawnThrows = (\<lambda>c. None),
                    appears = (\<lambda>i. {})\<rparr>"


text \<open>A later run: the target directory and the folders of Alice and Bob exist.\<close>

definition secondRunWorld :: world where
  "secondRunWorld = exampleWorld\<lparr>fs := {''hw1'', ''hw1/Alice'', ''hw1/Bob''}\<rparr>"

section \<open>Properties\<close>

subsection \<open>Auxiliary facts\<close>

lemma inheritedKey_message: "\<not> inheritedKey ''message''"
  by (simp add: inheritedKey_def objectPrototypeKeys_def)


lemma inheritedKey_constructor: "inheritedKey ''constructor''"
  by (simp add: inheritedKey_def objectPrototypeKeys_def)





lemma studentLookup_alice_bob:
  "studentLookup [alice, bob] = [''a1'' \<mapsto> ''Alice'', ''b1'' \<mapsto> ''Bob'']"
  by (simp add: studentLookup_def assignProp_def alice_def bob_def)

subsection \<open>The submission filter\<close>

text \<open>
  C1, at an input where the code departs from it. The roster is Alice and Bob; the
  account \<^verbatim>\<open>constructor\<close> is not on it and is no key of the lookup built from it. Its pull
  request from \<^verbatim>\<open>main\<close> is returned all the same, because \<^verbatim>\<open>"constructor" in studentLookup\<close>
  finds the member that every object inherits.
\<close>

theorem filter_keeps_inherited_name:
  "filterStudentsPullRequests [prAlice, prConstructor] [alice, bob] = [prAlice, prConstructor]
   \<and> studentLookup [alice, bob] (resolvedUsername prConstructor) = None
   \<and> resolvedUsername prConstructor \<notin> username ` set [alice, bob]"
proof -
  have "filterStudentsPullRequests [prAlice, prConstructor] [alice, bob] = [prAlice, prConstructor]"
    by (simp add: filterStudentsPullRequests_def studentLookup_alice_bob headRef_def
        resolvedUsername_def inOperator_def inheritedKey_constructor
        prAlice_def prConstructor_def)
  moreover have "studentLookup [alice, bob] (resolvedUsername prConstructor) = None"
    by (simp add: studentLookup_alice_bob resolvedUsername_def prConstructor_def)
  moreover have "resolvedUsername prConstructor \<notin> username ` set [alice, bob]"
    by (simp add: resolvedUsername_def prConstructor_def alice_def bob_def)
  ultimately show ?thesis by simp
qed




subsection \<open>The command line\<close>

text \<open>
  C8: when the repository name \<^verbatim>\<open>process.argv[2]\<close> is missing or does not start with a word
  character, the validation returns an error message, and the whole run of \<^verbatim>\<open>main\<close> is that
  message printed followed by the exit: no request, no directory, no subprocess.
\<close>

theorem invalid_repo_name_exits:
  assumes "argvAt argv RepoName = None
           \<or> (\<exists>s. argvAt argv RepoName = Some s \<and> \<not> startsWithWord s)"
  shows "\<exists>err. validateRepoName (argvAt argv RepoName) = Some err
               \<and> main cfg W argv = [Log err, Exit]"
proof -
  from assms have "validateRepoName (argvAt argv RepoName) \<noteq> None"
    by (auto simp: validateRepoName_def)
  then obtain err where "validateRepoName (argvAt argv RepoName) = Some err"
    by blast
  then show ?thesis by (simp add: main_def)
qed

theorem invalid_repo_name_exits_witness:
  "argvAt [''node'', ''cloneHw.js''] RepoName = None
   \<and> main exampleConfig exampleWorld [''node'', ''cloneHw.js'']
       = [Log ''No repository name supplied in arguments! Exiting...'', Exit]
   \<and> argvAt [''node'', ''cloneHw.js'', ''-hw1'', ''--all''] RepoName = Some ''-hw1''
   \<and> \<not> startsWithWord ''-hw1''
   \<and> main exampleConfig exampleWorld [''node'', ''cloneHw.js'', ''-hw1'', ''--all'']
       = [Log ''Invalid repository name! Exiting...'', Exit]"
proof -
  have a: "argvAt [''node'', ''cloneHw.js''] RepoName = None"
    by (simp add: argvAt_def RepoName_def)
  have b: "argvAt [''node'', ''cloneHw.js'', ''-hw1'', ''--all''] RepoName = Some ''-hw1''"
    by (simp add: argvAt_def RepoName_def)
  have c: "\<not> startsWithWord ''-hw1''"
    by (simp add: wordChar_def)
  from a invalid_repo_name_exits [of "[''node'', ''cloneHw.js'']" exampleConfig exampleWorld]
  have m1: "main exampleConfig exampleWorld [''node'', ''cloneHw.js'']
              = [Log ''No repository name supplied in arguments! Exiting...'', Exit]"
    by (auto simp: validateRepoName_def)
  from b c invalid_repo_name_exits
    [of "[''node'', ''cloneHw.js'', ''-hw1'', ''--all'']" exampleConfig exampleWorld]
  have m2: "main exampleConfig exampleWorld [''node'', ''cloneHw.js'', ''-hw1'', ''--all'']
              = [Log ''Invalid repository name! Exiting...'', Exit]"
    by (auto simp: validateRepoName_def)
  from a b c m1 m2 show ?thesis by simp
qed

text \<open>
  C9: \<^verbatim>\<open>main\<close> hands \<^verbatim>\<open>parseFlags\<close> the arguments after the repository name, and \<^verbatim>\<open>parseFlags\<close>
  drops three more before it filters. The flags are therefore the tokens matching
  \<^verbatim>\<open>/^--[\w-]+/\<close> from index 6 of the argument vector on, that is among the fourth and
  later arguments after the repository name; the three arguments right after the
  repository name never contribute.
\<close>

theorem flags_skip_three_arguments:
  "mainFlags argv = filter matchesFlag (drop 6 argv)
   \<and> mainFlags (node # script # repoName # a # b # c # later) = filter matchesFlag later"
  by (simp add: mainFlags_def parseFlags_def RepoName_def)

theorem flags_skip_three_arguments_witness:
  "mainFlags [''node'', ''cloneHw.js'', ''hw1'', ''--all'', ''--force'', ''--dry-run'',
              ''--verbose'', ''notes'', ''--'', ''--x-1'']
     = [''--verbose'', ''--x-1'']"
  using flags_skip_three_arguments
    [of "[''node'', ''cloneHw.js'', ''hw1'', ''--all'', ''--force'', ''--dry-run'',
          ''--verbose'', ''notes'', ''--'', ''--x-1'']"]
  by (simp add: wordChar_def)

subsection \<open>The pull-request fetcher\<close>

lemma runEvents_data:
  "runEvents W org rn body (map Data chunks @ es) = runEvents W org rn (body @ concat chunks) es"
  by (induction chunks arbitrary: body) auto

lemma xhr_outcome_at_end:
  assumes "events W = map Data chunks @ End # later"
  shows "snd (xhr W agent org rn host token) = onEnd W org rn (concat chunks)"
  using assms runEvents_data [of W org rn "[]" chunks "End # later"]
  by (simp add: xhr_def)

text \<open>
  C2: let the response stream deliver the body in chunks and then end. If the body parses
  as an object with a \<^verbatim>\<open>message\<close> key, the promise of \<^verbatim>\<open>xhr\<close> is rejected with the text
  \<^verbatim>\<open>Warning: No repository found for: <org>/<repo>\<close> and is not resolved with any payload; if
  the body parses as a list, the promise is resolved with that list and is not rejected.
\<close>

theorem fetch_rejects_error_object:
  assumes "events W = map Data chunks @ End # later"
      and "jsonParse W (concat chunks) = Some response"
  shows "(\<forall>keys. response = PObject keys \<and> ''message'' \<in> set keys \<longrightarrow>
            snd (xhr W agent org rn host token)
              = Rejected (''Warning: No repository found for: '' @ org @ ''/'' @ rn)
            \<and> (\<forall>payload. snd (xhr W agent org rn host token) \<noteq> Resolved payload))
         \<and> (\<forall>prs. response = PList prs \<longrightarrow>
            snd (xhr W agent org rn host token) = Resolved (PList prs)
            \<and> (\<forall>msg. snd (xhr W agent org rn host token) \<noteq> Rejected msg))"
proof -
  have out: "snd (xhr W agent org rn host token) = onEnd W org rn (concat chunks)"
    using assms(1) by (rule xhr_outcome_at_end)
  show ?thesis
    using assms(2) by (cases response) (simp_all add: out onEnd_def)
qed

theorem fetch_rejects_error_object_witness:
  "events exampleWorld = map Data [''PUL'', ''LS''] @ End # []
   \<and> jsonParse exampleWorld (concat [''PUL'', ''LS'']) = Some (PList [prAlice])
   \<and> snd (xhr exampleWorld ''instructor'' ''org'' ''hw1'' ''github.com'' ''token123'')
       = Resolved (PList [prAlice])
   \<and> events (exampleWorld\<lparr>events := [Data ''NOT FOUND'', End]\<rparr>)
       = map Data [''NOT FOUND''] @ End # []
   \<and> jsonParse (exampleWorld\<lparr>events := [Data ''NOT FOUND'', End]\<rparr>) (concat [''NOT FOUND''])
       = Some (PObject [''message'', ''documentation_url''])
   \<and> snd (xhr (exampleWorld\<lparr>events := [Data ''NOT FOUND'', End]\<rparr>)
             ''instructor'' ''org'' ''hw1'' ''github.com'' ''token123'')
       = Rejected ''Warning: No repository found for: org/hw1''"
proof -
  let ?V = "exampleWorld\<lparr>events := [Data ''NOT FOUND'', End]\<rparr>"
  have e1: "events exampleWorld = map Data [''PUL'', ''LS''] @ End # []"
    by (simp add: exampleWorld_def)
  have p1: "jsonParse exampleWorld (concat [''PUL'', ''LS'']) = Some (PList [prAlice])"
    by (simp add: exampleWorld_def exampleParse_def)
  have e2: "events ?V = map Data [''NOT FOUND''] @ End # []"
    by simp
  have p2: "jsonParse ?V (concat [''NOT FOUND''])
              = Some (PObject [''message'', ''documentation_url''])"
    by (simp add: exampleWorld_def exampleParse_def)
  from fetch_rejects_error_object
    [OF e1 p1, of "''instructor''" "''org''" "''hw1''" "''github.com''" "''token123''"]
  have r1: "snd (xhr exampleWorld ''instructor'' ''org'' ''hw1'' ''github.com'' ''token123'')
              = Resolved (PList [prAlice])"
    by simp
  from fetch_rejects_error_object
    [OF e2 p2, of "''instructor''" "''org''" "''hw1''" "''github.com''" "''token123''"]
  have r2: "snd (xhr ?V ''instructor'' ''org'' ''hw1'' ''github.com'' ''token123'')
              = Rejected ''Warning: No repository found for: org/hw1''"
    by simp
  from e1 p1 r1 e2 p2 r2 show ?thesis by simp
qed

text \<open>
  C10: when the response has no \<^verbatim>\<open>github-authentication-token-expiration\<close> header, or the
  header does not parse as a date, the number of days is \<^verbatim>\<open>NaN\<close>, the comparison with 7 is
  false, \<^verbatim>\<open>notifyIfTokenExpiresSoon\<close> prints nothing, and \<^verbatim>\<open>xhr\<close> has no effect besides its
  request; the outcome of its promise is computed from the stream events as always.
\<close>

theorem unreadable_expiry_no_warning:
  assumes "expirationHeader W = None
           \<or> (\<exists>s. expirationHeader W = Some s \<and> dateParse W s = None)"
  shows "daysUntilExpiry W (expirationHeader W) = NaN
         \<and> \<not> jsLess (daysUntilExpiry W (expirationHeader W)) (Num 7)
         \<and> notifyIfTokenExpiresSoon W (expirationHeader W) = []
         \<and> xhr W agent org rn host token
             = ([HttpGet (''api.'' @ host) (''/repos/'' @ org @ ''/'' @ rn @ ''/pulls'')
                   [(''User-Agent'', agent), (''Authorization'', ''token '' @ token)]],
                runEvents W org rn [] (events W))"
proof -
  from assms have "getTime W (expirationHeader W) = NaN"
    by (auto simp: getTime_def)
  then have days: "daysUntilExpiry W (expirationHeader W) = NaN"
    by (simp add: daysUntilExpiry_def)
  then show ?thesis
    by (simp add: notifyIfTokenExpiresSoon_def xhr_def)
qed

theorem unreadable_expiry_no_warning_witness:
  "expirationHeader exampleWorld = None
   \<and> notifyIfTokenExpiresSoon exampleWorld (expirationHeader exampleWorld) = []
   \<and> expirationHeader (exampleWorld\<lparr>expirationHeader := Some ''soon''\<rparr>) = Some ''soon''
   \<and> dateParse (exampleWorld\<lparr>expirationHeader := Some ''soon''\<rparr>) ''soon'' = None
   \<and> daysUntilExpiry (exampleWorld\<lparr>expirationHeader := Some ''soon''\<rparr>) (Some ''soon'') = NaN
   \<and> notifyIfTokenExpiresSoon (exampleWorld\<lparr>expirationHeader := Some ''soon''\<rparr>) (Some ''soon'') = []"
proof -
  let ?V = "exampleWorld\<lparr>expirationHeader := Some ''soon''\<rparr>"
  have a: "expirationHeader exampleWorld = None"
    by (simp add: exampleWorld_def)
  have b: "expirationHeader ?V = Some ''soon''"
    by simp
  have c: "dateParse ?V ''soon'' = None"
    by (simp add: exampleWorld_def)
  from a unreadable_expiry_no_warning [of exampleWorld]
  have n1: "notifyIfTokenExpiresSoon exampleWorld (expirationHeader exampleWorld) = []"
    by simp
  from b c unreadable_expiry_no_warning [of ?V]
  have n2: "daysUntilExpiry ?V (Some ''soon'') = NaN
            \<and> notifyIfTokenExpiresSoon ?V (Some ''soon'') = []"
    by simp
  from a b c n1 n2 show ?thesis by simp
qed

text \<open>
  The other side of the comparison, on exact arithmetic: a header that parses to a time
  less than seven days (604800000 ms) after the clock gives the warning, a later one
  does not.
\<close>

lemma days_of_readable_header:
  assumes "dateParse W s = Some t"
  shows "daysUntilExpiry W (Some s) = Num (of_int ((t - now W) div 86400000))"
proof -
  have "\<lfloor>real_of_int (t - now W) / 1000 / 60 / 60 / 24\<rfloor> = (t - now W) div 86400000"
    using floor_divide_of_int_eq [of "t - now W" 86400000, where ?'a = real] by simp
  with assms show ?thesis
    by (simp add: daysUntilExpiry_def getTime_def)
qed

lemma readable_expiry_warning:
  assumes "dateParse W s = Some t"
  shows "notifyIfTokenExpiresSoon W (Some s)
           = (if t - now W < 604800000
              then [Log ''Heads up, your Personal Access Token is expiring in < 1 week'']
              else [])"
proof -
  have "((t - now W) div 86400000 < 7) = (t - now W < 604800000)"
    by linarith
  then show ?thesis
    by (simp add: notifyIfTokenExpiresSoon_def days_of_readable_header [OF assms])
qed

subsection \<open>The repository materializer\<close>





subsection \<open>The gap reporter\<close>

lemma githubUsernames_present:
  "\<forall>s \<in> set submissions. user s \<noteq> None \<Longrightarrow>
     githubUsernames submissions = Inr (map resolvedUsername submissions)"
  by (induction submissions) (auto simp: resolvedUsername_def)

lemma appendNames_concat:
  "appendNames names sts = names @ concat (map (\<lambda>st. name st @ '' '') sts)"
  by (induction sts arbitrary: names) auto

text \<open>
  C7: when there are as many submissions as students, \<^verbatim>\<open>logMissingSubmissions\<close> prints
  nothing, whoever the authors are. Otherwise, for submissions that each have a user (as
  the type \<^verbatim>\<open>GithubPR\<close> declares), it prints the single line \<^verbatim>\<open>Missing submissions from: \<close>
  followed by the display names, each followed by a space, of the students whose
  username is not the login of any submission, in the order of the roster.
\<close>

theorem missing_submissions_line:
  "(length submissions = length sts \<longrightarrow> logMissingSubmissions submissions sts = Inr [])
   \<and> (length submissions \<noteq> length sts \<and> (\<forall>s \<in> set submissions. user s \<noteq> None) \<longrightarrow>
        logMissingSubmissions submissions sts
          = Inr [Log (''Missing submissions from: ''
                       @ concat (map (\<lambda>st. name st @ '' '')
                           (filter (\<lambda>st. username st \<notin> resolvedUsername ` set submissions) sts)))])"
  by (simp add: logMissingSubmissions_def githubUsernames_present appendNames_concat)

theorem missing_submissions_line_witness:
  "length [prAlice, prAliceMaster] = length [alice, bob]
   \<and> username bob \<notin> resolvedUsername ` set [prAlice, prAliceMaster]
   \<and> logMissingSubmissions [prAlice, prAliceMaster] [alice, bob] = Inr []
   \<and> length [prAlice] \<noteq> length [alice, bob]
   \<and> user prAlice \<noteq> None
   \<and> logMissingSubmissions [prAlice] [alice, bob] = Inr [Log ''Missing submissions from: Bob '']
   \<and> logMissingSubmissions [] [alice, bob] = Inr [Log ''Missing submissions from: Alice Bob '']"
proof -
  have u: "user prAlice \<noteq> None"
    by (simp add: prAlice_def)
  have nb: "username bob \<notin> resolvedUsername ` set [prAlice, prAliceMaster]"
    by (simp add: resolvedUsername_def prAlice_def prAliceMaster_def bob_def)
  from missing_submissions_line [of "[prAlice, prAliceMaster]" "[alice, bob]"]
  have eq: "logMissingSubmissions [prAlice, prAliceMaster] [alice, bob] = Inr []"
    by simp
  from u missing_submissions_line [of "[prAlice]" "[alice, bob]"]
  have one: "logMissingSubmissions [prAlice] [alice, bob]
               = Inr [Log ''Missing submissions from: Bob '']"
    by (simp add: resolvedUsername_def prAlice_def alice_def bob_def)
  from missing_submissions_line [of "[]" "[alice, bob]"]
  have none: "logMissingSubmissions [] [alice, bob]
                = Inr [Log ''Missing submissions from: Alice Bob '']"
    by (simp add: alice_def bob_def)
  from u nb eq one none show ?thesis by simp
qed

subsection \<open>The loop over the submissions\<close>

lemma cloneSubmission_with_user:
  assumes "user s = Some u"
  shows "cloneSubmission W rn h lk present s =
           Inr [if destination rn (getProp lk (login u)) \<in> present
                then Log (''Folder already exists for '' @ toStr (getProp lk (login u))
                            @ ''. Skipping...'')
                else (case spawnThrows W (cliCommand rn (Str (full_name (repo (base s))))
                                            (getProp lk (login u)) h) of
                        None \<Rightarrow> Spawn (cliCommand rn (Str (full_name (repo (base s))))
                                         (getProp lk (login u)) h)
                      | Some err \<Rightarrow> LogError err)]"
  using assms by (simp add: cloneSubmission_def spawnProcess_def split: option.splits)

lemma cloneSubmission_no_user:
  "user s = None \<Longrightarrow> cloneSubmission W rn h lk present s = Inl TypeError"
  by (simp add: cloneSubmission_def)

lemma cloneSubmission_spawns_at_most_once:
  assumes "cloneSubmission W rn h lk present s = Inr effs"
  shows "length (filter (\<lambda>e. case e of Spawn c \<Rightarrow> True | _ \<Rightarrow> False) effs) \<le> 1"
proof (cases "user s")
  case None
  with assms show ?thesis by (simp add: cloneSubmission_no_user)
next
  case (Some u)
  from assms cloneSubmission_with_user [OF Some, of W rn h lk present]
  have "\<exists>e. effs = [e]" by auto
  then show ?thesis by auto
qed

lemma forEachSubmission_spawn_bound:
  "length (filter (\<lambda>e. case e of Spawn c \<Rightarrow> True | _ \<Rightarrow> False)
             (fst (forEachSubmission W rn h lk i present subs))) \<le> length subs"
proof (induction subs arbitrary: i present)
  case Nil
  show ?case by simp
next
  case (Cons s subs)
  show ?case
  proof (cases "cloneSubmission W rn h lk (present \<union> appears W i) s")
    case (Inl err)
    then show ?thesis by simp
  next
    case (Inr effs)
    have one: "length (filter (\<lambda>e. case e of Spawn c \<Rightarrow> True | _ \<Rightarrow> False) effs) \<le> 1"
      using Inr by (rule cloneSubmission_spawns_at_most_once)
    obtain later thrown
      where run: "forEachSubmission W rn h lk (Suc i) (present \<union> appears W i) subs
                    = (later, thrown)"
      by (cases "forEachSubmission W rn h lk (Suc i) (present \<union> appears W i) subs")
    have "length (filter (\<lambda>e. case e of Spawn c \<Rightarrow> True | _ \<Rightarrow> False)
                  (fst (forEachSubmission W rn h lk (Suc i) (present \<union> appears W i) subs)))
                \<le> length subs"
      by (rule Cons.IH)
    then have rest: "length (filter (\<lambda>e. case e of Spawn c \<Rightarrow> True | _ \<Rightarrow> False) later)
                       \<le> length subs"
      by (simp add: run)
    from one rest show ?thesis
      by (simp add: Inr run)
  qed
qed

lemma forEachSubmission_all_present:
  assumes "\<forall>s \<in> set subs. \<exists>u. user s = Some u \<and> destination rn (getProp lk (login u)) \<in> present"
  shows "forEachSubmission W rn h lk i present subs =
           (map (\<lambda>s. Log (''Folder already exists for ''
                            @ toStr (getProp lk (resolvedUsername s)) @ ''. Skipping...'')) subs,
            None)"
  using assms
proof (induction subs arbitrary: i present)
  case Nil
  show ?case by simp
next
  case (Cons s subs)
  from Cons.prems obtain u where u: "user s = Some u"
    and here: "destination rn (getProp lk (login u)) \<in> present \<union> appears W i"
    by auto
  have step: "cloneSubmission W rn h lk (present \<union> appears W i) s =
                Inr [Log (''Folder already exists for '' @ toStr (getProp lk (resolvedUsername s))
                            @ ''. Skipping...'')]"
    using here by (simp add: cloneSubmission_with_user [OF u] resolvedUsername_def u)
  have "\<forall>s \<in> set subs. \<exists>u. user s = Some u
          \<and> destination rn (getProp lk (login u)) \<in> present \<union> appears W i"
    using Cons.prems by auto
  then have "forEachSubmission W rn h lk (Suc i) (present \<union> appears W i) subs =
           (map (\<lambda>s. Log (''Folder already exists for ''
                            @ toStr (getProp lk (resolvedUsername s)) @ ''. Skipping...'')) subs,
            None)"
    by (rule Cons.IH)
  with step show ?case by simp
qed


lemma cloneRepositories_spawn_bound:
  "length (filter (\<lambda>e. case e of Spawn c \<Rightarrow> True | _ \<Rightarrow> False)
             (fst (cloneRepositories W rn h subs sts))) \<le> length subs"
proof (cases "rn \<in> fs W")
  case True
  then have "cloneRepositories W rn h subs sts
               = forEachSubmission W rn h (studentLookup sts) 0 (fs W) subs"
    by (simp add: cloneRepositories_def)
  then show ?thesis
    by (simp add: forEachSubmission_spawn_bound)
next
  case False
  show ?thesis
  proof (cases "mkdirThrows W rn")
    case (Some err)
    with False have "cloneRepositories W rn h subs sts = ([], Some err)"
      by (simp add: cloneRepositories_def)
    then show ?thesis by simp
  next
    case None
    obtain effs thrown
      where run: "forEachSubmission W rn h (studentLookup sts) 0 (insert rn (fs W)) subs
                    = (effs, thrown)"
      by (cases "forEachSubmission W rn h (studentLookup sts) 0 (insert rn (fs W)) subs")
    with False None have "cloneRepositories W rn h subs sts = (Mkdir rn # effs, thrown)"
      by (simp add: cloneRepositories_def)
    moreover have "length (filter (\<lambda>e. case e of Spawn c \<Rightarrow> True | _ \<Rightarrow> False) effs)
                     \<le> length subs"
      using forEachSubmission_spawn_bound
        [of W rn h "studentLookup sts" 0 "insert rn (fs W)" subs]
      by (simp add: run)
    ultimately show ?thesis by simp
  qed
qed

lemma cloneRepositories_all_present:
  assumes "rn \<in> fs W"
      and "\<forall>s \<in> set subs. \<exists>u. user s = Some u
             \<and> destination rn (getProp (studentLookup sts) (login u)) \<in> fs W"
  shows "cloneRepositories W rn h subs sts
           = (map (\<lambda>s. Log (''Folder already exists for ''
                             @ toStr (getProp (studentLookup sts) (resolvedUsername s))
                             @ ''. Skipping...'')) subs,
              None)"
proof -
  have "forEachSubmission W rn h (studentLookup sts) 0 (fs W) subs
          = (map (\<lambda>s. Log (''Folder already exists for ''
                             @ toStr (getProp (studentLookup sts) (resolvedUsername s))
                             @ ''. Skipping...'')) subs,
             None)"
    using assms(2) by (rule forEachSubmission_all_present)
  with assms(1) show ?thesis
    by (simp add: cloneRepositories_def)
qed

lemma example_destination:
  "destination ''hw1'' (getProp (studentLookup [alice, bob]) ''a1'') = ''hw1/Alice''"
  by (simp add: destination_def getProp_def studentLookup_alice_bob)

lemma example_command:
  "cliCommand ''hw1'' (Str ''org/hw1'') (getProp (studentLookup [alice, bob]) ''a1'') ''github.com''
     = ''git clone git@github.com:org/hw1.git hw1/Alice''"
  by (simp add: cliCommand_def getProp_def studentLookup_alice_bob)




text \<open>
  C5 as stated fails: Alice has two pull requests, from \<^verbatim>\<open>main\<close> and from \<^verbatim>\<open>master\<close>, and
  both pass the filter. \<^verbatim>\<open>spawn\<close> returns at once and \<^verbatim>\<open>forEach\<close> does not wait, so in the run
  where the first clone has not created \<^verbatim>\<open>hw1/Alice\<close> by the time the second submission is
  checked, a second clone is spawned into the same destination.
\<close>

theorem same_destination_cloned_twice_counterexample:
  "filterStudentsPullRequests [prAlice, prAliceMaster] [alice, bob] = [prAlice, prAliceMaster]
   \<and> cloneRepositories exampleWorld ''hw1'' ''github.com'' [prAlice, prAliceMaster] [alice, bob]
     = ([Mkdir ''hw1'',
         Spawn ''git clone git@github.com:org/hw1.git hw1/Alice'',
         Spawn ''git clone git@github.com:org/hw1.git hw1/Alice''], None)"
proof -
  have a: "user prAlice = Some \<lparr>login = ''a1''\<rparr>" "full_name (repo (base prAlice)) = ''org/hw1''"
    by (simp_all add: prAlice_def)
  have b: "user prAliceMaster = Some \<lparr>login = ''a1''\<rparr>"
    "full_name (repo (base prAliceMaster)) = ''org/hw1''"
    by (simp_all add: prAliceMaster_def)
  have w: "fs exampleWorld = {}" "mkdirThrows exampleWorld ''hw1'' = None"
    "appears exampleWorld 0 = {}" "appears exampleWorld (Suc 0) = {}"
    "spawnThrows exampleWorld ''git clone git@github.com:org/hw1.git hw1/Alice'' = None"
    by (simp_all add: exampleWorld_def)
  have kept: "filterStudentsPullRequests [prAlice, prAliceMaster] [alice, bob]
                = [prAlice, prAliceMaster]"
    by (simp add: filterStudentsPullRequests_def studentLookup_alice_bob headRef_def
        resolvedUsername_def inOperator_def prAlice_def prAliceMaster_def)
  have run: "cloneRepositories exampleWorld ''hw1'' ''github.com'' [prAlice, prAliceMaster]
               [alice, bob]
             = ([Mkdir ''hw1'',
                 Spawn ''git clone git@github.com:org/hw1.git hw1/Alice'',
                 Spawn ''git clone git@github.com:org/hw1.git hw1/Alice''], None)"
    by (simp add: cloneRepositories_def w cloneSubmission_with_user [OF a(1)]
        cloneSubmission_with_user [OF b(1)] a(2) b(2) example_destination example_command)
  from kept run show ?thesis by simp
qed

text \<open>
  C5, amended. A submission whose destination \<^verbatim>\<open><repoName>/<studentName>\<close> exists when it is
  handled gets the skip notice and nothing is spawned for it. In every run the number of
  clones spawned is at most the number of submissions: at most one clone per submission,
  not per destination. In a run that starts with the target directory and every
  destination present, whatever else appears meanwhile, \<^verbatim>\<open>cloneRepositories\<close> prints one skip
  notice per submission and spawns nothing.
\<close>

theorem existing_destination_skipped:
  "(user s = Some u \<and> destination repoName (getProp lk (login u)) \<in> present \<longrightarrow>
      cloneSubmission W repoName host lk present s
        = Inr [Log (''Folder already exists for '' @ toStr (getProp lk (login u))
                     @ ''. Skipping...'')])
   \<and> length (filter (\<lambda>e. case e of Spawn c \<Rightarrow> True | _ \<Rightarrow> False)
               (fst (cloneRepositories W repoName host submissions sts)))
       \<le> length submissions
   \<and> (repoName \<in> fs W
       \<and> (\<forall>s \<in> set submissions. \<exists>u. user s = Some u
             \<and> destination repoName (getProp (studentLookup sts) (login u)) \<in> fs W) \<longrightarrow>
      cloneRepositories W repoName host submissions sts
        = (map (\<lambda>s. Log (''Folder already exists for ''
                          @ toStr (getProp (studentLookup sts) (resolvedUsername s))
                          @ ''. Skipping...'')) submissions,
           None))"
proof (intro conjI impI)
  assume "user s = Some u \<and> destination repoName (getProp lk (login u)) \<in> present"
  then show "cloneSubmission W repoName host lk present s
               = Inr [Log (''Folder already exists for '' @ toStr (getProp lk (login u))
                            @ ''. Skipping...'')]"
    by (simp add: cloneSubmission_with_user)
next
  show "length (filter (\<lambda>e. case e of Spawn c \<Rightarrow> True | _ \<Rightarrow> False)
                 (fst (cloneRepositories W repoName host submissions sts)))
          \<le> length submissions"
    by (rule cloneRepositories_spawn_bound)
next
  assume "repoName \<in> fs W
          \<and> (\<forall>s \<in> set submissions. \<exists>u. user s = Some u
                \<and> destination repoName (getProp (studentLookup sts) (login u)) \<in> fs W)"
  then show "cloneRepositories W repoName host submissions sts
               = (map (\<lambda>s. Log (''Folder already exists for ''
                                 @ toStr (getProp (studentLookup sts) (resolvedUsername s))
                                 @ ''. Skipping...'')) submissions,
                  None)"
    by (simp add: cloneRepositories_all_present)
qed

theorem existing_destination_skipped_witness:
  "user prAlice = Some \<lparr>login = ''a1''\<rparr>
   \<and> destination ''hw1'' (getProp (studentLookup [alice, bob]) ''a1'') \<in> {''hw1'', ''hw1/Alice''}
   \<and> cloneSubmission exampleWorld ''hw1'' ''github.com'' (studentLookup [alice, bob])
        {''hw1'', ''hw1/Alice''} prAlice
       = Inr [Log ''Folder already exists for Alice. Skipping...'']
   \<and> ''hw1'' \<in> fs secondRunWorld
   \<and> destination ''hw1'' (getProp (studentLookup [alice, bob]) ''a1'') \<in> fs secondRunWorld
   \<and> destination ''hw1'' (getProp (studentLookup [alice, bob]) ''b1'') \<in> fs secondRunWorld
   \<and> cloneRepositories secondRunWorld ''hw1'' ''github.com'' [prAlice, prAliceMaster, prBob]
        [alice, bob]
       = ([Log ''Folder already exists for Alice. Skipping...'',
           Log ''Folder already exists for Alice. Skipping...'',
           Log ''Folder already exists for Bob. Skipping...''], None)"
proof -
  have a: "user prAlice = Some \<lparr>login = ''a1''\<rparr>"
    by (simp add: prAlice_def)
  have am: "user prAliceMaster = Some \<lparr>login = ''a1''\<rparr>"
    by (simp add: prAliceMaster_def)
  have b: "user prBob = Some \<lparr>login = ''b1''\<rparr>"
    by (simp add: prBob_def)
  have bobDest: "destination ''hw1'' (getProp (studentLookup [alice, bob]) ''b1'') = ''hw1/Bob''"
    by (simp add: destination_def getProp_def studentLookup_alice_bob)
  have files: "fs secondRunWorld = {''hw1'', ''hw1/Alice'', ''hw1/Bob''}"
    by (simp add: secondRunWorld_def)
  have names: "toStr (getProp (studentLookup [alice, bob]) ''a1'') = ''Alice''"
    "toStr (getProp (studentLookup [alice, bob]) ''b1'') = ''Bob''"
    by (simp_all add: getProp_def studentLookup_alice_bob)
  have d1: "destination ''hw1'' (getProp (studentLookup [alice, bob]) ''a1'')
              \<in> {''hw1'', ''hw1/Alice''}"
    by (simp add: example_destination)
  have all: "\<forall>s \<in> set [prAlice, prAliceMaster, prBob]. \<exists>u. user s = Some u
               \<and> destination ''hw1'' (getProp (studentLookup [alice, bob]) (login u))
                   \<in> fs secondRunWorld"
    by (simp add: a am b files example_destination bobDest)
  have dir: "''hw1'' \<in> fs secondRunWorld"
    by (simp add: files)
  from a d1 existing_destination_skipped
    [of prAlice "\<lparr>login = ''a1''\<rparr>" "''hw1''" "studentLookup [alice, bob]"
        "{''hw1'', ''hw1/Alice''}" exampleWorld "''github.com''"]
  have one: "cloneSubmission exampleWorld ''hw1'' ''github.com'' (studentLookup [alice, bob])
               {''hw1'', ''hw1/Alice''} prAlice
             = Inr [Log ''Folder already exists for Alice. Skipping...'']"
    by (simp add: names)
  from dir all existing_destination_skipped
    [of prAlice "\<lparr>login = ''a1''\<rparr>" "''hw1''" "studentLookup [alice, bob]" "{}"
        secondRunWorld "''github.com''" "[prAlice, prAliceMaster, prBob]" "[alice, bob]"]
  have run: "cloneRepositories secondRunWorld ''hw1'' ''github.com''
               [prAlice, prAliceMaster, prBob] [alice, bob]
             = ([Log ''Folder already exists for Alice. Skipping...'',
                 Log ''Folder already exists for Alice. Skipping...'',
                 Log ''Folder already exists for Bob. Skipping...''], None)"
    by (simp add: resolvedUsername_def a am b names)
  from a d1 one dir files run show ?thesis
    by (simp add: example_destination bobDest)
qed

subsection \<open>The program as a whole\<close>

text \<open>
  \<^verbatim>\<open>main\<close> calls \<^verbatim>\<open>logMissingSubmissions\<close> only after \<^verbatim>\<open>cloneRepositories\<close> has returned without an
  exception, and then every submission has a user.
\<close>

lemma forEachSubmission_returns_users:
  "snd (forEachSubmission W rn h lk i present subs) = None \<Longrightarrow> \<forall>s \<in> set subs. user s \<noteq> None"
proof (induction subs arbitrary: i present)
  case Nil
  show ?case by simp
next
  case (Cons s subs)
  show ?case
  proof (cases "user s")
    case None
    with Cons.prems show ?thesis
      by (simp add: cloneSubmission_no_user)
  next
    case (Some u)
    obtain later thrown
      where run: "forEachSubmission W rn h lk (Suc i) (present \<union> appears W i) subs
                    = (later, thrown)"
      by (cases "forEachSubmission W rn h lk (Suc i) (present \<union> appears W i) subs")
    with Cons.prems have "thrown = None"
      by (simp add: cloneSubmission_with_user [OF Some])
    with run have "snd (forEachSubmission W rn h lk (Suc i) (present \<union> appears W i) subs) = None"
      by simp
    then have "\<forall>s \<in> set subs. user s \<noteq> None"
      by (rule Cons.IH)
    with Some show ?thesis by simp
  qed
qed

lemma cloneRepositories_returns_users:
  assumes "snd (cloneRepositories W rn h subs sts) = None"
  shows "\<forall>s \<in> set subs. user s \<noteq> None"
proof (cases "rn \<in> fs W")
  case True
  with assms have "snd (forEachSubmission W rn h (studentLookup sts) 0 (fs W) subs) = None"
    by (simp add: cloneRepositories_def)
  then show ?thesis by (rule forEachSubmission_returns_users)
next
  case False
  with assms
  have "snd (forEachSubmission W rn h (studentLookup sts) 0 (insert rn (fs W)) subs) = None"
    by (simp add: cloneRepositories_def split: option.splits prod.splits)
  then show ?thesis by (rule forEachSubmission_returns_users)
qed

text \<open>
  The first scenario: the roster is Alice and Bob, the only pull request is Alice's from
  \<^verbatim>\<open>main\<close>. The run requests the pull requests, creates \<^verbatim>\<open>hw1\<close>, clones into \<^verbatim>\<open>hw1/Alice\<close> and
  reports Bob.
\<close>

lemma scenario_one_submission:
  "main exampleConfig exampleWorld [''node'', ''cloneHw.js'', ''hw1'']
     = [HttpGet ''api.github.com'' ''/repos/org/hw1/pulls''
          [(''User-Agent'', ''instructor''), (''Authorization'', ''token token123'')],
        Mkdir ''hw1'',
        Spawn ''git clone git@github.com:org/hw1.git hw1/Alice'',
        Log ''Missing submissions from: Bob '']"
proof -
  have cfg: "hostName exampleConfig = ''github.com''" "cfgUsername exampleConfig = ''instructor''"
    "githubToken exampleConfig = ''token123''" "orgName exampleConfig = ''org''"
    "students exampleConfig = [alice, bob]"
    by (simp_all add: exampleConfig_def)
  have arg: "argvAt [''node'', ''cloneHw.js'', ''hw1''] RepoName = Some ''hw1''"
    by (simp add: argvAt_def RepoName_def)
  have valid: "validateRepoName (Some ''hw1'') = None"
    by (simp add: validateRepoName_def wordChar_def)
  have w: "expirationHeader exampleWorld = None"
    "events exampleWorld = map Data [''PUL'', ''LS''] @ End # []"
    by (simp_all add: exampleWorld_def)
  have fetch: "xhr exampleWorld ''instructor'' ''org'' ''hw1'' ''github.com'' ''token123''
                 = ([HttpGet ''api.github.com'' ''/repos/org/hw1/pulls''
                       [(''User-Agent'', ''instructor''), (''Authorization'', ''token token123'')]],
                    Resolved (PList [prAlice]))"
    by (simp add: xhr_def exampleWorld_def notifyIfTokenExpiresSoon_def daysUntilExpiry_def
        getTime_def onEnd_def exampleParse_def)
  have kept: "filterStudentsPullRequests [prAlice] [alice, bob] = [prAlice]"
    by (simp add: filterStudentsPullRequests_def studentLookup_alice_bob headRef_def
        resolvedUsername_def inOperator_def prAlice_def)
  have a: "user prAlice = Some \<lparr>login = ''a1''\<rparr>" "full_name (repo (base prAlice)) = ''org/hw1''"
    by (simp_all add: prAlice_def)
  have fsw: "fs exampleWorld = {}" "mkdirThrows exampleWorld ''hw1'' = None"
    "appears exampleWorld 0 = {}"
    "spawnThrows exampleWorld ''git clone git@github.com:org/hw1.git hw1/Alice'' = None"
    by (simp_all add: exampleWorld_def)
  have clone: "cloneRepositories exampleWorld ''hw1'' ''github.com'' [prAlice] [alice, bob]
                 = ([Mkdir ''hw1'', Spawn ''git clone git@github.com:org/hw1.git hw1/Alice''], None)"
    by (simp add: cloneRepositories_def fsw cloneSubmission_with_user [OF a(1)] a(2)
        example_destination example_command)
  have report: "logMissingSubmissions [prAlice] [alice, bob]
                  = Inr [Log ''Missing submissions from: Bob '']"
    by (simp add: logMissingSubmissions_def a(1) alice_def bob_def)
  show ?thesis
    by (simp add: main_def arg valid cfg fetch afterFetch_def kept clone report)
qed

end
